theory Spec2Isabelle
  imports Complex_Main
begin

section \<open>Numbers, rounding and the ambient random source\<close>

text \<open>
  The dashboard is TypeScript. Its numbers are modelled as exact reals: every property
  below is about ranges, lengths and which value is selected, none depends on the last
  bit of a double. Where the source can produce a value that is not a finite number
  (\<open>0 / 0\<close>, \<open>Math.min()\<close> of nothing, an out-of-range array read) the model returns
  \<open>None\<close> instead of using HOL's total division or \<open>nth\<close>.

  \<open>Math.random()\<close> is the only source of data in the components. It is made an explicit
  argument: an \<open>entropy\<close> is the sequence of values the calls return, \<open>e k\<close> being
  the value of the \<open>k\<close>-th call made while the modelled function runs (calls counted from
  \<open>0\<close> in evaluation order). The contract of \<open>Math.random\<close> is \<open>0 \<le> e k < 1\<close>;
  theorems that need it assume it for the draws they use.
\<close>

type_synonym entropy = "nat \<Rightarrow> real"

definition fixed_draws :: "real \<Rightarrow> entropy" where
  "fixed_draws u = (\<lambda>k. u)"

definition replay :: "real list \<Rightarrow> real \<Rightarrow> entropy" where
  "replay us d = (\<lambda>k. if k < length us then us ! k else d)"

definition Math_floor :: "real \<Rightarrow> int" where
  "Math_floor x = \<lfloor>x\<rfloor>"

definition Math_round :: "real \<Rightarrow> int" where
  \<comment> \<open>JavaScript rounds halves towards \<open>+\<infinity>\<close>.\<close>
  "Math_round x = \<lfloor>x + 1 / 2\<rfloor>"

definition array_get :: "'a list \<Rightarrow> int \<Rightarrow> 'a option" where
  \<comment> \<open>\<open>xs[i]\<close>; \<open>None\<close> is \<open>undefined\<close>.\<close>
  "array_get xs i = (if 0 \<le> i \<and> i < int (length xs) then Some (xs ! nat i) else None)"

definition or_default :: "real option \<Rightarrow> real \<Rightarrow> real" where
  \<comment> \<open>\<open>x || d\<close> on an optional number: \<open>undefined\<close> and \<open>0\<close> are falsy.\<close>
  "or_default x d = (case x of None \<Rightarrow> d | Some v \<Rightarrow> if v = 0 then d else v)"

section \<open>Data model\<close>

datatype direction = Buy | Sell

datatype strength_level = Weak | Moderate | Strong

text \<open>
  \<open>TradingSignal\<close> (SignalPanel) and \<open>SignalData\<close> (TradingChart) have the same fields.
  \<open>message\<close> and \<open>timestamp\<close> are display strings and are left out; the message is built
  after all the other fields, so leaving it out does not move any draw.
\<close>

record Indicators =
  ind_ema_short :: real
  ind_ema_long :: real
  ind_rsi :: real

record TradingSignal =
  signal_type :: "direction option"
  strength :: "strength_level option"
  confidence :: real
  signal_price :: real
  indicators :: Indicators

record ChartDataPoint =
  price :: real
  ema_short :: real
  ema_long :: real
  rsi :: real
  volume :: real

record TradingSettings =
  emaShortPeriod :: nat
  emaLongPeriod :: nat
  rsiPeriod :: nat
  rsiOverbought :: real
  rsiOversold :: real
  maxTradeAmount :: real
  tradeAmountPercent :: real
  stopLossPercent :: real
  takeProfitPercent :: real
  minTimeBetweenTrades :: nat
  autoTradingEnabled :: bool
  minConfidence :: real

definition DEFAULT_SETTINGS :: TradingSettings where
  "DEFAULT_SETTINGS = \<lparr> emaShortPeriod = 12, emaLongPeriod = 26, rsiPeriod = 14,
     rsiOverbought = 70, rsiOversold = 30, maxTradeAmount = 100, tradeAmountPercent = 2,
     stopLossPercent = 2, takeProfitPercent = 4, minTimeBetweenTrades = 300,
     autoTradingEnabled = False, minConfidence = 70 \<rparr>"

section \<open>SignalPanel\<close>

definition signalTypes :: "direction list" where
  "signalTypes = [Buy, Sell]"

definition strengths :: "strength_level list" where
  "strengths = [Weak, Moderate, Strong]"

definition sample_confidence :: "real \<Rightarrow> real" where
  \<comment> \<open>\<open>Math.round((Math.random() * 40 + 60) * 10) / 10\<close>\<close>
  "sample_confidence u = real_of_int (Math_round ((u * 40 + 60) * 10)) / 10"

definition SignalPanel_generateSampleSignal :: "entropy \<Rightarrow> TradingSignal" where
  "SignalPanel_generateSampleSignal e =
     \<lparr> signal_type = array_get signalTypes (Math_floor (e 0 * real (length signalTypes))),
       strength = array_get strengths (Math_floor (e 1 * real (length strengths))),
       confidence = sample_confidence (e 2),
       signal_price = 43000 + (e 3 - 1 / 2) * 2000,
       indicators = \<lparr> ind_ema_short = 43200 + (e 4 - 1 / 2) * 300,
                      ind_ema_long = 42800 + (e 5 - 1 / 2) * 500,
                      ind_rsi = real_of_int (Math_round ((e 6 * 80 + 10) * 10)) / 10 \<rparr> \<rparr>"

text \<open>
  The panel's state, as far as trading goes: the signal on display and the console, which
  is where \<open>handleExecuteTrade\<close> leaves its only trace. The periodic update replaces the
  signal on every tick.
\<close>

record SignalPanel_state =
  currentSignal :: "TradingSignal option"
  console :: "TradingSignal list"

definition SignalPanel_tick :: "entropy \<Rightarrow> SignalPanel_state \<Rightarrow> SignalPanel_state" where
  "SignalPanel_tick e st = st\<lparr>currentSignal := Some (SignalPanel_generateSampleSignal e)\<rparr>"

definition handleExecuteTrade :: "SignalPanel_state \<Rightarrow> SignalPanel_state" where
  "handleExecuteTrade st =
     (case currentSignal st of
        None \<Rightarrow> st
      | Some s \<Rightarrow> st\<lparr>console := console st @ [s]\<rparr>)"

definition execute_disabled :: "TradingSignal \<Rightarrow> bool" where
  \<comment> \<open>\<open>disabled={currentSignal.confidence < 60}\<close>\<close>
  "execute_disabled s = (confidence s < 60)"

definition click_execute :: "SignalPanel_state \<Rightarrow> SignalPanel_state" where
  \<comment> \<open>The button exists only while a signal is shown; a disabled button ignores the click.\<close>
  "click_execute st =
     (case currentSignal st of
        None \<Rightarrow> st
      | Some s \<Rightarrow> if execute_disabled s then st else handleExecuteTrade st)"

section \<open>TradingChart\<close>

text \<open>
  \<open>generateSampleData\<close> fills the chart with 50 points. Each turn of its loop makes five
  draws, in this order: the price change, the noise of \<open>ema_short\<close>, the noise of
  \<open>ema_long\<close>, the RSI and the volume. \<open>basePrice\<close> is carried unrounded from turn to
  turn; the stored fields are rounded. The \<open>time\<close> label is a display string and is
  left out.
\<close>

function generateSampleData_loop ::
  "entropy \<Rightarrow> nat \<Rightarrow> real \<Rightarrow> ChartDataPoint list \<Rightarrow> ChartDataPoint list" where
  "generateSampleData_loop e i basePrice data =
     (if i < 50 then
        let priceChange = (e (5 * i) - 1 / 2) * 1000;
            basePrice' = basePrice + priceChange;
            ema_short' = basePrice' + (e (5 * i + 1) - 1 / 2) * 200;
            ema_long' = basePrice' + (e (5 * i + 2) - 1 / 2) * 400;
            rsi' = max 0 (min 100 (50 + (e (5 * i + 3) - 1 / 2) * 60))
        in generateSampleData_loop e (i + 1) basePrice'
             (data @ [\<lparr> price = real_of_int (Math_round basePrice'),
                         ema_short = real_of_int (Math_round ema_short'),
                         ema_long = real_of_int (Math_round ema_long'),
                         rsi = real_of_int (Math_round (rsi' * 10)) / 10,
                         volume = real_of_int (Math_round (e (5 * i + 4) * 100000)) \<rparr>])
      else data)"
  by pat_completeness auto
termination
  by (relation "measure (\<lambda>(e, i, basePrice, data). 50 - i)") auto

declare generateSampleData_loop.simps [simp del]

definition generateSampleData :: "entropy \<Rightarrow> ChartDataPoint list" where
  "generateSampleData e = generateSampleData_loop e 0 43000 []"

definition last_point :: "'a list \<Rightarrow> 'a option" where
  \<comment> \<open>\<open>xs[xs.length - 1]\<close>\<close>
  "last_point xs = array_get xs (int (length xs) - 1)"

definition TradingChart_generateSampleSignal ::
  "entropy \<Rightarrow> ChartDataPoint list \<Rightarrow> TradingSignal" where
  "TradingChart_generateSampleSignal e chartData =
     (let latestData = last_point chartData in
      \<lparr> signal_type = array_get signalTypes (Math_floor (e 0 * real (length signalTypes))),
        strength = array_get strengths (Math_floor (e 1 * real (length strengths))),
        confidence = sample_confidence (e 2),
        signal_price = or_default (map_option price latestData) 43000,
        indicators = \<lparr> ind_ema_short = or_default (map_option ema_short latestData) 43200,
                       ind_ema_long = or_default (map_option ema_long latestData) 42800,
                       ind_rsi = or_default (map_option rsi latestData) 65 \<rparr> \<rparr>)"

definition slice_last :: "nat \<Rightarrow> 'a list \<Rightarrow> 'a list" where
  \<comment> \<open>\<open>xs.slice(-n)\<close>\<close>
  "slice_last n xs = drop (length xs - n) xs"

datatype js_error = TypeError

text \<open>
  The state updater of the real-time interval. On an empty series \<open>lastData\<close> is
  \<open>undefined\<close> and reading \<open>lastData.price\<close> throws. It makes five draws: price change,
  the two EMA noises, the RSI step and the volume. The interval that applies it exists only
  while \<open>isRealTime\<close> is set.
\<close>

definition realtime_update :: "entropy \<Rightarrow> ChartDataPoint list \<Rightarrow> js_error + ChartDataPoint list" where
  "realtime_update e prevData =
     (let newData = prevData in
      case last_point newData of
        None \<Rightarrow> Inl TypeError
      | Some lastData \<Rightarrow>
          let priceChange = (e 0 - 1 / 2) * 500;
              newPrice = price lastData + priceChange
          in Inr (slice_last 50
               (newData @ [\<lparr> price = real_of_int (Math_round newPrice),
                              ema_short = real_of_int (Math_round (newPrice + (e 1 - 1 / 2) * 200)),
                              ema_long = real_of_int (Math_round (newPrice + (e 2 - 1 / 2) * 400)),
                              rsi = max 0 (min 100 (rsi lastData + (e 3 - 1 / 2) * 10)),
                              volume = real_of_int (Math_round (e 4 * 100000)) \<rparr>])))"

text \<open>Successive firings of the interval, one entropy per firing; an exception ends the run.\<close>

fun realtime_updates :: "entropy list \<Rightarrow> ChartDataPoint list \<Rightarrow> js_error + ChartDataPoint list" where
  "realtime_updates [] d = Inr d"
| "realtime_updates (e # es) d =
     (case realtime_update e d of Inl err \<Rightarrow> Inl err | Inr d' \<Rightarrow> realtime_updates es d')"

section \<open>BacktestForm\<close>

record BacktestParams =
  timeframe :: string
  startDate :: string
  endDate :: string
  initialBalance :: real
  bt_tradeAmountPercent :: real
  bt_emaShortPeriod :: nat
  bt_emaLongPeriod :: nat
  bt_rsiPeriod :: nat
  bt_rsiOverbought :: real
  bt_rsiOversold :: real

record BacktestResult =
  success :: bool
  totalReturn :: real
  totalReturnPercent :: real
  totalTrades :: int
  winRate :: real
  maxDrawdown :: real
  sharpeRatio :: real

record BacktestForm_state =
  params :: BacktestParams
  loading :: bool
  result :: "BacktestResult option"

definition mockResult :: "entropy \<Rightarrow> BacktestResult" where
  "mockResult e =
     \<lparr> success = True,
       totalReturn = e 0 * 400 - 100,
       totalReturnPercent = e 1 * 40 - 10,
       totalTrades = Math_floor (e 2 * 50) + 20,
       winRate = e 3 * 40 + 50,
       maxDrawdown = e 4 * (- 15),
       sharpeRatio = e 5 * 2 + 1 / 2 \<rparr>"

text \<open>
  \<open>runBacktest\<close> sets \<open>loading\<close>, clears the result, logs the parameters, waits three
  seconds, stores \<open>mockResult\<close> and clears \<open>loading\<close>. Nothing in its \<open>try\<close> block
  can throw, so the \<open>catch\<close> branch (a result with \<open>success: false\<close>) is never taken.
  The model gives the state once the promise has settled. \<open>exchange\<close> and \<open>pair\<close> are
  the component's props; they and \<open>params\<close> are only logged.
\<close>

definition runBacktest ::
  "string \<Rightarrow> string \<Rightarrow> entropy \<Rightarrow> BacktestForm_state \<Rightarrow> BacktestForm_state" where
  "runBacktest exchange pair e st =
     (let st1 = st\<lparr>loading := True, result := None\<rparr>;
          st2 = st1\<lparr>result := Some (mockResult e)\<rparr>
      in st2\<lparr>loading := False\<rparr>)"

definition sample_params :: "string \<Rightarrow> string \<Rightarrow> BacktestParams" where
  \<comment> \<open>The form's initial parameters, with the two dates given.\<close>
  "sample_params start end =
     \<lparr> timeframe = ''1h'', startDate = start, endDate = end, initialBalance = 1000,
       bt_tradeAmountPercent = 10, bt_emaShortPeriod = 12, bt_emaLongPeriod = 26,
       bt_rsiPeriod = 14, bt_rsiOverbought = 70, bt_rsiOversold = 30 \<rparr>"

definition initial_form :: "BacktestParams \<Rightarrow> BacktestForm_state" where
  "initial_form p = \<lparr> params = p, loading = False, result = None \<rparr>"

section \<open>ResultsChart\<close>

record Trade =
  timestamp :: string
  trade_type :: direction
  trade_price :: real
  amount :: real
  profit :: real

definition SAMPLE_TRADES :: "Trade list" where
  "SAMPLE_TRADES =
     [ \<lparr> timestamp = ''2024-01-01 10:00'', trade_type = Buy, trade_price = 42500, amount = 23 / 1000, profit = 0 \<rparr>,
       \<lparr> timestamp = ''2024-01-01 14:30'', trade_type = Sell, trade_price = 43200, amount = 23 / 1000, profit = 161 / 10 \<rparr>,
       \<lparr> timestamp = ''2024-01-02 09:15'', trade_type = Buy, trade_price = 43800, amount = 24 / 1000, profit = 0 \<rparr>,
       \<lparr> timestamp = ''2024-01-02 16:45'', trade_type = Sell, trade_price = 43100, amount = 24 / 1000, profit = - (168 / 10) \<rparr>,
       \<lparr> timestamp = ''2024-01-03 11:20'', trade_type = Buy, trade_price = 44200, amount = 22 / 1000, profit = 0 \<rparr>,
       \<lparr> timestamp = ''2024-01-03 18:00'', trade_type = Sell, trade_price = 45100, amount = 22 / 1000, profit = 198 / 10 \<rparr> ]"

record PerformanceData =
  balance :: real
  trades :: int
  profitLoss :: real
  drawdown :: real

text \<open>
  \<open>generatePerformanceData\<close> makes two draws per day: the daily return, then the number
  of trades. The running \<open>balance\<close> is carried unrounded; the stored balance is rounded to
  cents, and the stored drawdown is computed from the unrounded one. The \<open>date\<close> label
  is left out.
\<close>

function generatePerformanceData_loop ::
  "entropy \<Rightarrow> nat \<Rightarrow> real \<Rightarrow> PerformanceData list \<Rightarrow> PerformanceData list" where
  "generatePerformanceData_loop e i bal data =
     (if i < 30 then
        let dailyReturn = (e (2 * i) - 45 / 100) * 50;
            trades' = Math_floor (e (2 * i + 1) * 4);
            bal' = bal + dailyReturn
        in generatePerformanceData_loop e (i + 1) bal'
             (data @ [\<lparr> balance = real_of_int (Math_round (bal' * 100)) / 100,
                         trades = trades',
                         profitLoss = dailyReturn,
                         drawdown = (if bal' < 1000 then ((bal' - 1000) / 1000) * 100 else 0) \<rparr>])
      else data)"
  by pat_completeness auto
termination
  by (relation "measure (\<lambda>(e, i, bal, data). 30 - i)") auto

declare generatePerformanceData_loop.simps [simp del]

definition generatePerformanceData :: "entropy \<Rightarrow> PerformanceData list" where
  "generatePerformanceData e = generatePerformanceData_loop e 0 1000 []"

definition js_div :: "real \<Rightarrow> real \<Rightarrow> real option" where
  \<comment> \<open>\<open>a / b\<close>; \<open>None\<close> when the quotient is \<open>NaN\<close> or infinite.\<close>
  "js_div a b = (if b = 0 then None else Some (a / b))"

fun Math_min :: "real list \<Rightarrow> real option" where
  \<comment> \<open>\<open>Math.min(...xs)\<close>; of no arguments it is \<open>Infinity\<close>, here \<open>None\<close>.\<close>
  "Math_min [] = None"
| "Math_min (x # xs) = Some (fold min xs x)"

definition winningTrades :: "Trade list \<Rightarrow> nat" where
  "winningTrades ts = length (filter (\<lambda>t. profit t > 0) ts)"

definition ResultsChart_winRate :: "Trade list \<Rightarrow> real option" where
  \<comment> \<open>\<open>(winningTrades / totalTrades) * 100\<close>\<close>
  "ResultsChart_winRate ts =
     map_option (\<lambda>q. q * 100) (js_div (real (winningTrades ts)) (real (length ts)))"

definition ResultsChart_maxDrawdown :: "PerformanceData list \<Rightarrow> real option" where
  "ResultsChart_maxDrawdown performanceData = Math_min (map drawdown performanceData)"

section \<open>The specification's formulas, for comparison\<close>

text \<open>
  These definitions follow the words of the specification, not the source. They are used
  only to state what the specification asks for next to what the components compute.
\<close>

definition spec_crossover_up :: "Indicators \<Rightarrow> Indicators \<Rightarrow> bool" where
  "spec_crossover_up prev cur =
     (ind_ema_short prev \<le> ind_ema_long prev \<and> ind_ema_short cur > ind_ema_long cur)"

definition spec_crossover_down :: "Indicators \<Rightarrow> Indicators \<Rightarrow> bool" where
  "spec_crossover_down prev cur =
     (ind_ema_short prev \<ge> ind_ema_long prev \<and> ind_ema_short cur < ind_ema_long cur)"

definition spec_ema_count :: "nat \<Rightarrow> nat \<Rightarrow> nat" where
  \<comment> \<open>input length \<open>-\<close> period \<open>+ 1\<close>\<close>
  "spec_ema_count n p = n - p + 1"

fun spec_drawdowns :: "real \<Rightarrow> real list \<Rightarrow> real list" where
  \<comment> \<open>\<open>(balance[i] - runningPeak[i]) / runningPeak[i] * 100\<close>, the peak carried along\<close>
  "spec_drawdowns peak [] = []"
| "spec_drawdowns peak (b # bs) =
     (let peak' = max peak b in (b - peak') / peak' * 100 # spec_drawdowns peak' bs)"

definition spec_maxDrawdownPercent :: "real list \<Rightarrow> real option" where
  "spec_maxDrawdownPercent balances =
     (case balances of [] \<Rightarrow> None | b # bs \<Rightarrow> Math_min (spec_drawdowns b balances))"

definition spec_winRate :: "Trade list \<Rightarrow> real" where
  "spec_winRate ts =
     (if ts = [] then 0 else real (length (filter (\<lambda>t. profit t > 0) ts)) / real (length ts))"

section \<open>Closed forms of the two generator loops\<close>

primrec running_basePrice :: "entropy \<Rightarrow> nat \<Rightarrow> real" where
  \<comment> \<open>\<open>basePrice\<close> after the price change of turn \<open>i\<close>\<close>
  "running_basePrice e 0 = 43000 + (e 0 - 1 / 2) * 1000"
| "running_basePrice e (Suc i) = running_basePrice e i + (e (5 * Suc i) - 1 / 2) * 1000"

definition sample_point :: "entropy \<Rightarrow> nat \<Rightarrow> ChartDataPoint" where
  "sample_point e i =
     \<lparr> price = real_of_int (Math_round (running_basePrice e i)),
       ema_short = real_of_int (Math_round (running_basePrice e i + (e (5 * i + 1) - 1 / 2) * 200)),
       ema_long = real_of_int (Math_round (running_basePrice e i + (e (5 * i + 2) - 1 / 2) * 400)),
       rsi = real_of_int (Math_round (max 0 (min 100 (50 + (e (5 * i + 3) - 1 / 2) * 60)) * 10)) / 10,
       volume = real_of_int (Math_round (e (5 * i + 4) * 100000)) \<rparr>"

primrec running_balance :: "entropy \<Rightarrow> nat \<Rightarrow> real" where
  \<comment> \<open>\<open>balance\<close> after the return of day \<open>i\<close>\<close>
  "running_balance e 0 = 1000 + (e 0 - 45 / 100) * 50"
| "running_balance e (Suc i) = running_balance e i + (e (2 * Suc i) - 45 / 100) * 50"

definition drawdown_vs_initial :: "real \<Rightarrow> real" where
  "drawdown_vs_initial b = (if b < 1000 then ((b - 1000) / 1000) * 100 else 0)"

definition performance_point :: "entropy \<Rightarrow> nat \<Rightarrow> PerformanceData" where
  "performance_point e i =
     \<lparr> balance = real_of_int (Math_round (running_balance e i * 100)) / 100,
       trades = Math_floor (e (2 * i + 1) * 4),
       profitLoss = (e (2 * i) - 45 / 100) * 50,
       drawdown = drawdown_vs_initial (running_balance e i) \<rparr>"

definition base_before :: "entropy \<Rightarrow> nat \<Rightarrow> real" where
  \<comment> \<open>\<open>basePrice\<close> on entry to turn \<open>i\<close>\<close>
  "base_before e i = (case i of 0 \<Rightarrow> 43000 | Suc j \<Rightarrow> running_basePrice e j)"

definition balance_before :: "entropy \<Rightarrow> nat \<Rightarrow> real" where
  \<comment> \<open>\<open>balance\<close> on entry to day \<open>i\<close>\<close>
  "balance_before e i = (case i of 0 \<Rightarrow> 1000 | Suc j \<Rightarrow> running_balance e j)"

definition realtime_point :: "entropy \<Rightarrow> ChartDataPoint \<Rightarrow> ChartDataPoint" where
  \<comment> \<open>the point a real-time update appends after \<open>lastData\<close>\<close>
  "realtime_point e lastData =
     \<lparr> price = real_of_int (Math_round (price lastData + (e 0 - 1 / 2) * 500)),
       ema_short = real_of_int (Math_round (price lastData + (e 0 - 1 / 2) * 500 + (e 1 - 1 / 2) * 200)),
       ema_long = real_of_int (Math_round (price lastData + (e 0 - 1 / 2) * 500 + (e 2 - 1 / 2) * 400)),
       rsi = max 0 (min 100 (rsi lastData + (e 3 - 1 / 2) * 10)),
       volume = real_of_int (Math_round (e 4 * 100000)) \<rparr>"

definition first_draws :: "nat \<Rightarrow> entropy \<Rightarrow> real list" where
  "first_draws n e = map e [0..<n]"

definition peak_then_dip :: entropy where
  \<comment> \<open>day 0 gains 25, day 1 loses 10, every later day returns 0\<close>
  "peak_then_dip = replay [19 / 20, 0, 1 / 4] (9 / 20)"

definition flat_point :: ChartDataPoint where
  "flat_point = \<lparr> price = 43000, ema_short = 43000, ema_long = 43000, rsi = 50, volume = 50000 \<rparr>"

section \<open>Rounding and confidence bounds\<close>

lemma Math_round_lower: "real_of_int n \<le> x \<Longrightarrow> n \<le> Math_round x"
  unfolding Math_round_def by linarith

lemma Math_round_upper: "x \<le> real_of_int n \<Longrightarrow> Math_round x \<le> n"
  unfolding Math_round_def by linarith

lemma sample_confidence_bounds:
  assumes "0 \<le> u" and "u < 1"
  shows "60 \<le> sample_confidence u" and "sample_confidence u \<le> 100"
proof -
  have "real_of_int 600 \<le> (u * 40 + 60) * 10" using assms by simp
  then have "600 \<le> Math_round ((u * 40 + 60) * 10)" by (rule Math_round_lower)
  then show "60 \<le> sample_confidence u" by (simp add: sample_confidence_def)
  have "(u * 40 + 60) * 10 \<le> real_of_int 1000" using assms by simp
  then have "Math_round ((u * 40 + 60) * 10) \<le> 1000" by (rule Math_round_upper)
  then show "sample_confidence u \<le> 100" by (simp add: sample_confidence_def)
qed

subsection \<open>Array reads\<close>

lemma floor_times_2: "0 \<le> (u::real) \<Longrightarrow> u < 1 \<Longrightarrow> \<lfloor>u * 2\<rfloor> = (if u < 1 / 2 then 0 else (1::int))"
  by (auto intro!: floor_unique)

lemma pick_signalType:
  "0 \<le> u \<Longrightarrow> u < 1 \<Longrightarrow>
   array_get signalTypes (Math_floor (u * real (length signalTypes)))
     = Some (if u < 1 / 2 then Buy else Sell)"
  by (simp add: array_get_def signalTypes_def Math_floor_def floor_times_2)

lemma last_point_Nil: "last_point [] = None"
  by (simp add: last_point_def array_get_def)

lemma last_point_nonempty: "d \<noteq> [] \<Longrightarrow> last_point d = Some (last d)"
proof -
  assume ne: "d \<noteq> []"
  then have "0 < length d" by simp
  then have "nat (int (length d) - 1) = length d - 1" by simp
  with ne show ?thesis
    by (simp add: last_point_def array_get_def last_conv_nth)
qed

subsection \<open>The sample chart\<close>

lemma base_before_step: "base_before e i + (e (5 * i) - 1 / 2) * 1000 = running_basePrice e i"
  by (cases i) (simp_all add: base_before_def)

lemma generateSampleData_loop_closed:
  "n = 50 - i \<Longrightarrow> i \<le> 50 \<Longrightarrow>
   generateSampleData_loop e i (base_before e i) data = data @ map (sample_point e) [i..<50]"
proof (induction n arbitrary: i data)
  case 0
  then have "i = 50" by simp
  then show ?case by (simp add: generateSampleData_loop.simps)
next
  case (Suc n)
  then have lt: "i < 50" and n: "n = 50 - (i + 1)" and le: "i + 1 \<le> 50" by simp_all
  have nxt: "base_before e (i + 1) = running_basePrice e i" by (simp add: base_before_def)
  have "generateSampleData_loop e i (base_before e i) data =
        generateSampleData_loop e (i + 1) (base_before e (i + 1)) (data @ [sample_point e i])"
    by (subst generateSampleData_loop.simps)
       (simp only: lt if_True Let_def base_before_step nxt sample_point_def)
  also have "\<dots> = (data @ [sample_point e i]) @ map (sample_point e) [i + 1..<50]"
    by (rule Suc.IH [OF n le])
  also have "\<dots> = data @ map (sample_point e) [i..<50]"
    using lt by (simp add: upt_conv_Cons)
  finally show ?case .
qed

lemma generateSampleData_closed: "generateSampleData e = map (sample_point e) [0..<50]"
  using generateSampleData_loop_closed [of 50 0 e "[]"]
  by (simp add: generateSampleData_def base_before_def)

lemma length_generateSampleData: "length (generateSampleData e) = 50"
  by (simp add: generateSampleData_closed)

lemma nth_generateSampleData: "i < 50 \<Longrightarrow> generateSampleData e ! i = sample_point e i"
  by (simp add: generateSampleData_closed)

lemma rounded_tenths_in_range:
  assumes "0 \<le> x" and "x \<le> 100"
  shows "0 \<le> real_of_int (Math_round (x * 10)) / 10"
    and "real_of_int (Math_round (x * 10)) / 10 \<le> 100"
proof -
  have "real_of_int 0 \<le> x * 10" using assms by simp
  then have "0 \<le> Math_round (x * 10)" by (rule Math_round_lower)
  then show "0 \<le> real_of_int (Math_round (x * 10)) / 10" by simp
  have "x * 10 \<le> real_of_int 1000" using assms by simp
  then have "Math_round (x * 10) \<le> 1000" by (rule Math_round_upper)
  then show "real_of_int (Math_round (x * 10)) / 10 \<le> 100" by simp
qed

lemma rsi_sample_point: "0 \<le> rsi (sample_point e i) \<and> rsi (sample_point e i) \<le> 100"
  using rounded_tenths_in_range [of "max 0 (min 100 (50 + (e (5 * i + 3) - 1 / 2) * 60))"]
  by (simp add: sample_point_def)

lemma rsi_generateSampleData:
  "p \<in> set (generateSampleData e) \<Longrightarrow> 0 \<le> rsi p \<and> rsi p \<le> 100"
  using rsi_sample_point by (auto simp: generateSampleData_closed)

subsection \<open>Real-time updates\<close>

lemma realtime_update_Nil: "realtime_update e [] = Inl TypeError"
  by (simp add: realtime_update_def last_point_Nil)

lemma realtime_update_nonempty:
  "d \<noteq> [] \<Longrightarrow> realtime_update e d = Inr (slice_last 50 (d @ [realtime_point e (last d)]))"
  by (simp add: realtime_update_def last_point_nonempty realtime_point_def Let_def add.assoc)

lemma realtime_update_Inr:
  "realtime_update e d = Inr d' \<Longrightarrow> d \<noteq> [] \<and> d' = slice_last 50 (d @ [realtime_point e (last d)])"
  by (cases "d = []") (simp_all add: realtime_update_Nil realtime_update_nonempty)

lemma length_slice_last: "length (slice_last n xs) = min n (length xs)"
  by (simp add: slice_last_def)

lemma set_slice_last: "set (slice_last n xs) \<subseteq> set xs"
  by (simp add: slice_last_def set_drop_subset)

lemma slice_last_nonempty: "0 < n \<Longrightarrow> xs \<noteq> [] \<Longrightarrow> slice_last n xs \<noteq> []"
proof -
  assume "0 < n" and "xs \<noteq> []"
  then have "0 < length xs" by simp
  with \<open>0 < n\<close> have "length xs - n < length xs" by arith
  then show ?thesis by (simp add: slice_last_def)
qed

lemma rsi_realtime_point: "0 \<le> rsi (realtime_point e q) \<and> rsi (realtime_point e q) \<le> 100"
  by (simp add: realtime_point_def)

lemma realtime_updates_rsi:
  "realtime_updates es d0 = Inr d \<Longrightarrow> \<forall>p\<in>set d0. 0 \<le> rsi p \<and> rsi p \<le> 100 \<Longrightarrow>
   \<forall>p\<in>set d. 0 \<le> rsi p \<and> rsi p \<le> 100"
proof (induction es arbitrary: d0)
  case Nil
  then show ?case by simp
next
  case (Cons e es)
  from Cons.prems(1) obtain d1 where step: "realtime_update e d0 = Inr d1"
    and rest: "realtime_updates es d1 = Inr d"
    by (auto split: sum.splits)
  from step have d1: "d1 = slice_last 50 (d0 @ [realtime_point e (last d0)])"
    by (simp add: realtime_update_Inr)
  have sub: "set d1 \<subseteq> set (d0 @ [realtime_point e (last d0)])"
    unfolding d1 by (rule set_slice_last)
  have "\<forall>p\<in>set d1. 0 \<le> rsi p \<and> rsi p \<le> 100"
  proof
    fix p assume "p \<in> set d1"
    with sub have "p \<in> set d0 \<or> p = realtime_point e (last d0)" by auto
    then show "0 \<le> rsi p \<and> rsi p \<le> 100"
    proof
      assume "p \<in> set d0"
      with Cons.prems(2) show ?thesis by simp
    next
      assume "p = realtime_point e (last d0)"
      then show ?thesis by (simp only: rsi_realtime_point)
    qed
  qed
  with rest show ?case by (rule Cons.IH)
qed

lemma realtime_updates_total:
  "d0 \<noteq> [] \<Longrightarrow> length d0 \<le> 50 \<Longrightarrow>
   \<exists>d. realtime_updates es d0 = Inr d \<and> length d = min 50 (length d0 + length es)"
proof (induction es arbitrary: d0)
  case Nil
  then show ?case by simp
next
  case (Cons e es)
  let ?d1 = "slice_last 50 (d0 @ [realtime_point e (last d0)])"
  have step: "realtime_update e d0 = Inr ?d1"
    using Cons.prems(1) by (rule realtime_update_nonempty)
  have len: "length ?d1 = min 50 (length d0 + 1)" by (simp add: length_slice_last)
  have ne: "?d1 \<noteq> []" by (rule slice_last_nonempty) simp_all
  have le: "length ?d1 \<le> 50" using len by simp
  from Cons.IH [OF ne le] obtain d where d: "realtime_updates es ?d1 = Inr d"
    and dl: "length d = min 50 (length ?d1 + length es)" by blast
  have "realtime_updates (e # es) d0 = Inr d" using step d by simp
  moreover have "length d = min 50 (length d0 + length (e # es))" using dl len by simp
  ultimately show ?case by blast
qed

lemma realtime_updates_bound:
  "realtime_updates es d0 = Inr d \<Longrightarrow> length d0 \<le> 50 \<Longrightarrow> length d \<le> 50"
proof (cases "d0 = []")
  case True
  assume "realtime_updates es d0 = Inr d"
  with True show ?thesis by (cases es) (simp_all add: realtime_update_Nil)
next
  case False
  assume r: "realtime_updates es d0 = Inr d" and "length d0 \<le> 50"
  with False realtime_updates_total [of d0 es] show ?thesis by auto
qed

subsection \<open>The performance curve\<close>

lemma balance_before_step: "balance_before e i + (e (2 * i) - 45 / 100) * 50 = running_balance e i"
  by (cases i) (simp_all add: balance_before_def)

lemma generatePerformanceData_loop_closed:
  "n = 30 - i \<Longrightarrow> i \<le> 30 \<Longrightarrow>
   generatePerformanceData_loop e i (balance_before e i) data
     = data @ map (performance_point e) [i..<30]"
proof (induction n arbitrary: i data)
  case 0
  then have "i = 30" by simp
  then show ?case by (simp add: generatePerformanceData_loop.simps)
next
  case (Suc n)
  then have lt: "i < 30" and n: "n = 30 - (i + 1)" and le: "i + 1 \<le> 30" by simp_all
  have nxt: "balance_before e (i + 1) = running_balance e i" by (simp add: balance_before_def)
  have "generatePerformanceData_loop e i (balance_before e i) data =
        generatePerformanceData_loop e (i + 1) (balance_before e (i + 1))
          (data @ [performance_point e i])"
    by (subst generatePerformanceData_loop.simps)
       (simp only: lt if_True Let_def balance_before_step nxt performance_point_def
          drawdown_vs_initial_def)
  also have "\<dots> = (data @ [performance_point e i]) @ map (performance_point e) [i + 1..<30]"
    by (rule Suc.IH [OF n le])
  also have "\<dots> = data @ map (performance_point e) [i..<30]"
    using lt by (simp add: upt_conv_Cons)
  finally show ?case .
qed

lemma generatePerformanceData_closed:
  "generatePerformanceData e = map (performance_point e) [0..<30]"
  using generatePerformanceData_loop_closed [of 30 0 e "[]"]
  by (simp add: generatePerformanceData_def balance_before_def)

lemma Math_min_Min: "xs \<noteq> [] \<Longrightarrow> Math_min xs = Some (Min (set xs))"
proof (cases xs)
  case Nil
  assume "xs \<noteq> []"
  with Nil show ?thesis by simp
next
  case (Cons x ys)
  have "Min (set (x # ys)) = fold min ys x" by (rule Min.set_eq_fold)
  with Cons show ?thesis by (simp only: Math_min.simps)
qed

lemma drawdowns_closed:
  "map drawdown (generatePerformanceData e)
     = map (\<lambda>i. drawdown_vs_initial (running_balance e i)) [0..<30]"
  by (simp add: generatePerformanceData_closed performance_point_def)

lemma maxDrawdown_closed:
  "ResultsChart_maxDrawdown (generatePerformanceData e)
     = Some (Min ((\<lambda>i. drawdown_vs_initial (running_balance e i)) ` {0..<30}))"
proof -
  have "map (\<lambda>i. drawdown_vs_initial (running_balance e i)) [0..<30] \<noteq> []" by simp
  then show ?thesis
    unfolding ResultsChart_maxDrawdown_def drawdowns_closed
    by (simp add: Math_min_Min)
qed

subsection \<open>A curve that peaks and then dips while above the initial balance\<close>

lemma peak_then_dip_draws:
  "peak_then_dip 0 = 19 / 20" "peak_then_dip 2 = 1 / 4" "k \<ge> 3 \<Longrightarrow> peak_then_dip k = 9 / 20"
  by (simp_all add: peak_then_dip_def replay_def)

lemma running_balance_peak_then_dip:
  "running_balance peak_then_dip i = (if i = 0 then 1025 else 1015)"
proof (induction i)
  case 0
  show ?case by (simp add: peak_then_dip_draws)
next
  case (Suc i)
  show ?case
  proof (cases i)
    case 0
    then show ?thesis by (simp add: peak_then_dip_draws)
  next
    case (Suc j)
    then have "peak_then_dip (2 * Suc i) = 9 / 20" by (simp add: peak_then_dip_draws)
    with Suc.IH Suc show ?thesis by simp
  qed
qed

lemma code_drawdown_peak_then_dip:
  "ResultsChart_maxDrawdown (generatePerformanceData peak_then_dip) = Some 0"
proof -
  have "drawdown_vs_initial (running_balance peak_then_dip i) = 0" for i
    by (simp add: running_balance_peak_then_dip drawdown_vs_initial_def)
  then have "(\<lambda>i. drawdown_vs_initial (running_balance peak_then_dip i)) ` {0..<30} = {0}"
    by (simp add: image_constant_conv)
  then show ?thesis by (simp only: maxDrawdown_closed Min_singleton)
qed

lemma balances_peak_then_dip:
  "map balance (generatePerformanceData peak_then_dip) = 1025 # replicate 29 1015"
proof -
  have b: "balance (performance_point peak_then_dip i) = (if i = 0 then 1025 else 1015)" for i
    by (simp add: performance_point_def running_balance_peak_then_dip Math_round_def)
  have "map balance (generatePerformanceData peak_then_dip)
          = map (\<lambda>i. if i = 0 then 1025 else 1015) [0..<30]"
    by (simp add: generatePerformanceData_closed b)
  also have "[0..<30] = 0 # [1..<30]" by (simp add: upt_conv_Cons)
  also have "map (\<lambda>i. if i = 0 then 1025 else (1015::real)) (0 # [1..<30])
               = 1025 # map (\<lambda>i. 1015) [1..<30]"
    by simp
  also have "map (\<lambda>i. (1015::real)) [1..<30] = replicate 29 1015"
    by (simp add: map_replicate_const)
  finally show ?thesis .
qed

lemma spec_drawdowns_replicate:
  "b \<le> peak \<Longrightarrow> spec_drawdowns peak (replicate n b) = replicate n ((b - peak) / peak * 100)"
  by (induction n) (simp_all add: Let_def max_absorb1)

lemma spec_drawdown_peak_then_dip:
  "spec_maxDrawdownPercent (map balance (generatePerformanceData peak_then_dip)) = Some (- (40 / 41))"
proof -
  have dd: "spec_drawdowns 1025 (1025 # replicate 29 1015) = 0 # replicate 29 (- (40 / 41))"
    by (simp add: Let_def spec_drawdowns_replicate)
  have "Math_min (0 # replicate 29 (- (40 / 41))) = Some (Min (set (0 # replicate 29 (- (40 / 41)))))"
    by (rule Math_min_Min) simp
  moreover have "set (0 # replicate 29 (- (40 / 41) :: real)) = {0, - (40 / 41)}"
    by simp
  moreover have "Min {0, - (40 / 41) :: real} = - (40 / 41)"
    by simp
  ultimately have "Math_min (0 # replicate 29 (- (40 / 41))) = Some (- (40 / 41))"
    by (simp only:)
  then show ?thesis
    by (simp only: balances_peak_then_dip spec_maxDrawdownPercent_def list.case dd)
qed

subsection \<open>A chart that never moves\<close>

text \<open>With every draw equal to \<open>1 / 2\<close> all noise terms vanish and every point is the same.\<close>

lemma running_basePrice_flat: "running_basePrice (fixed_draws (1 / 2)) i = 43000"
  by (induction i) (simp_all add: fixed_draws_def)

lemma sample_point_flat: "sample_point (fixed_draws (1 / 2)) i = flat_point"
  by (simp add: sample_point_def running_basePrice_flat flat_point_def)
     (simp add: fixed_draws_def Math_round_def)

lemma generateSampleData_flat: "generateSampleData (fixed_draws (1 / 2)) = replicate 50 flat_point"
proof -
  have "sample_point (fixed_draws (1 / 2)) = (\<lambda>i. flat_point)"
    by (rule ext) (rule sample_point_flat)
  then show ?thesis
    by (simp add: generateSampleData_closed map_replicate_const)
qed

lemma realtime_point_flat: "realtime_point (fixed_draws (1 / 2)) flat_point = flat_point"
  by (simp add: realtime_point_def flat_point_def) (simp add: fixed_draws_def Math_round_def)

lemma realtime_update_flat:
  "realtime_update (fixed_draws (1 / 2)) (replicate 50 flat_point) = Inr (replicate 50 flat_point)"
proof -
  have ne: "replicate 50 flat_point \<noteq> []" by simp
  have "slice_last 50 (replicate 50 flat_point @ [flat_point]) = replicate 50 flat_point"
    by (simp add: slice_last_def replicate_append_same)
  then show ?thesis
    by (simp add: realtime_update_nonempty [OF ne] realtime_point_flat)
qed

section \<open>BacktestForm: what a run returns\<close>

text \<open>
  C1 (amended). The result of a backtest is computed from six draws of the ambient random
  source and from nothing else: \<open>runBacktest\<close> stores \<open>mockResult\<close> of the draws, so two
  runs return identical results whenever they receive the same six draws, whatever the
  exchange, the pair, the parameters and the earlier state of the form are.
\<close>

theorem runBacktest_result_from_draws_alone:
  assumes "first_draws 6 e = first_draws 6 e'"
  shows "result (runBacktest exchange pair e st) = Some (mockResult e)
       \<and> result (runBacktest exchange pair e st) = result (runBacktest exchange' pair' e' st')"
proof -
  from assms have "\<forall>k\<in>set [0..<6]. e k = e' k"
    by (simp only: first_draws_def map_eq_conv)
  then have "e 0 = e' 0" "e 1 = e' 1" "e 2 = e' 2" "e 3 = e' 3" "e 4 = e' 4" "e 5 = e' 5"
    by simp_all
  then have "mockResult e = mockResult e'"
    by (simp add: mockResult_def)
  then show ?thesis
    by (simp add: runBacktest_def Let_def)
qed

text \<open>Two runs on different forms, fed the same six draws.\<close>

theorem runBacktest_result_from_draws_alone_witness:
  "first_draws 6 (replay [1 / 4, 1 / 4, 1 / 4, 1 / 4, 1 / 4, 1 / 4] 0) = first_draws 6 (fixed_draws (1 / 4))
   \<and> result (runBacktest ''nobitex'' ''BTC/USDT'' (replay [1 / 4, 1 / 4, 1 / 4, 1 / 4, 1 / 4, 1 / 4] 0)
         (initial_form (sample_params ''2024-01-01'' ''2024-01-31'')))
     = result (runBacktest ''wallex'' ''ETH/USDT'' (fixed_draws (1 / 4))
         (initial_form (sample_params ''2023-06-01'' ''2023-06-02'')))"
proof -
  have h: "first_draws 6 (replay [1 / 4, 1 / 4, 1 / 4, 1 / 4, 1 / 4, 1 / 4] 0)
             = first_draws 6 (fixed_draws (1 / 4))"
    by (simp add: first_draws_def replay_def fixed_draws_def upt_conv_Cons)
  from runBacktest_result_from_draws_alone [OF h] h show ?thesis by blast
qed

text \<open>
  As the specification words it, determinism in the input alone fails: the same exchange, pair
  and parameters give different results when the draws differ.
\<close>

theorem runBacktest_differs_between_runs:
  "result (runBacktest ''nobitex'' ''BTC/USDT'' (fixed_draws 0)
       (initial_form (sample_params ''2024-01-01'' ''2024-01-31'')))
   \<noteq> result (runBacktest ''nobitex'' ''BTC/USDT'' (fixed_draws (1 / 2))
       (initial_form (sample_params ''2024-01-01'' ''2024-01-31'')))"
  by (simp add: runBacktest_def Let_def mockResult_def fixed_draws_def)

text \<open>
  C2 (amended). \<open>runBacktest\<close> never looks at \<open>startDate\<close> and \<open>endDate\<close>: for every
  form state, whatever the two dates are, it stores a result whose \<open>success\<close> flag is
  true, clears \<open>loading\<close> and leaves the parameters as they were.
\<close>

theorem runBacktest_ignores_the_date_range:
  "map_option success (result (runBacktest exchange pair e st)) = Some True
   \<and> loading (runBacktest exchange pair e st) = False
   \<and> params (runBacktest exchange pair e st) = params st"
  by (simp add: runBacktest_def Let_def mockResult_def)

text \<open>
  A run with \<open>startDate = endDate\<close> produces a successful result, not a range error.
\<close>

theorem runBacktest_equal_dates_succeeds:
  "startDate (sample_params ''2024-01-01'' ''2024-01-01'')
     = endDate (sample_params ''2024-01-01'' ''2024-01-01'')
   \<and> result (runBacktest ''nobitex'' ''BTC/USDT'' (fixed_draws (1 / 2))
         (initial_form (sample_params ''2024-01-01'' ''2024-01-01'')))
     = Some \<lparr> success = True, totalReturn = 100, totalReturnPercent = 10, totalTrades = 45,
              winRate = 70, maxDrawdown = - (15 / 2), sharpeRatio = 3 / 2 \<rparr>"
  by (simp add: runBacktest_def Let_def mockResult_def fixed_draws_def sample_params_def
      Math_floor_def)

section \<open>Signals: direction, confidence and the execute button\<close>

text \<open>
  C3 (amended). Both signal generators choose the direction from their first draw alone:
  \<open>buy\<close> when it is below \<open>1 / 2\<close>, \<open>sell\<close> otherwise; the EMA values play no part.
  The SignalPanel puts a fresh signal on display at every tick.
\<close>

theorem signal_direction_from_one_draw:
  assumes "0 \<le> e 0" and "e 0 < 1"
  shows "signal_type (SignalPanel_generateSampleSignal e) = Some (if e 0 < 1 / 2 then Buy else Sell)
       \<and> signal_type (TradingChart_generateSampleSignal e chartData)
           = Some (if e 0 < 1 / 2 then Buy else Sell)
       \<and> currentSignal (SignalPanel_tick e st) = Some (SignalPanel_generateSampleSignal e)"
  using pick_signalType [OF assms]
  by (simp add: SignalPanel_generateSampleSignal_def TradingChart_generateSampleSignal_def
      SignalPanel_tick_def Let_def)

theorem signal_direction_from_one_draw_witness:
  "0 \<le> fixed_draws (3 / 4) 0 \<and> fixed_draws (3 / 4) 0 < 1
   \<and> signal_type (SignalPanel_generateSampleSignal (fixed_draws (3 / 4))) = Some Sell
   \<and> signal_type (TradingChart_generateSampleSignal (fixed_draws (3 / 4)) []) = Some Sell
   \<and> currentSignal (SignalPanel_tick (fixed_draws (3 / 4)) \<lparr>currentSignal = None, console = []\<rparr>)
       = Some (SignalPanel_generateSampleSignal (fixed_draws (3 / 4)))"
proof -
  have a: "0 \<le> fixed_draws (3 / 4) 0" and b: "fixed_draws (3 / 4) 0 < 1"
    by (simp_all add: fixed_draws_def)
  have c: "\<not> fixed_draws (3 / 4) 0 < 1 / 2" by (simp add: fixed_draws_def)
  from signal_direction_from_one_draw
         [of "fixed_draws (3 / 4)" "[]" "\<lparr>currentSignal = None, console = []\<rparr>", OF a b] a b c
  show ?thesis by simp
qed

text \<open>
  With every draw \<open>0\<close> the panel shows a \<open>buy\<close> signal whose \<open>ema_short\<close> (43050) is
  above its \<open>ema_long\<close> (42550), tick after tick: a signal on every tick and no crossover
  between two consecutive ones.
\<close>

theorem buy_signal_without_crossover:
  "signal_type (SignalPanel_generateSampleSignal (fixed_draws 0)) = Some Buy
   \<and> \<not> spec_crossover_up (indicators (SignalPanel_generateSampleSignal (fixed_draws 0)))
                          (indicators (SignalPanel_generateSampleSignal (fixed_draws 0)))
   \<and> \<not> spec_crossover_down (indicators (SignalPanel_generateSampleSignal (fixed_draws 0)))
                            (indicators (SignalPanel_generateSampleSignal (fixed_draws 0)))"
  by (simp add: SignalPanel_generateSampleSignal_def fixed_draws_def array_get_def
      signalTypes_def Math_floor_def spec_crossover_up_def spec_crossover_down_def)

text \<open>
  C8 (amended). The execute button is disabled exactly for signals whose confidence is
  strictly below the constant 60; a click on it then changes nothing. The threshold is not
  the \<open>minConfidence\<close> of the trading settings.
\<close>

theorem execute_rejected_below_60:
  assumes "confidence s < 60"
  shows "execute_disabled s
       \<and> click_execute \<lparr>currentSignal = Some s, console = c\<rparr> = \<lparr>currentSignal = Some s, console = c\<rparr>"
  using assms by (simp add: execute_disabled_def click_execute_def)

theorem execute_rejected_below_60_witness:
  "confidence \<lparr>signal_type = Some Buy, strength = Some Weak, confidence = 55, signal_price = 43000,
       indicators = \<lparr>ind_ema_short = 43200, ind_ema_long = 42800, ind_rsi = 65\<rparr>\<rparr> < 60
   \<and> click_execute \<lparr>currentSignal = Some \<lparr>signal_type = Some Buy, strength = Some Weak,
         confidence = 55, signal_price = 43000,
         indicators = \<lparr>ind_ema_short = 43200, ind_ema_long = 42800, ind_rsi = 65\<rparr>\<rparr>, console = []\<rparr>
     = \<lparr>currentSignal = Some \<lparr>signal_type = Some Buy, strength = Some Weak,
         confidence = 55, signal_price = 43000,
         indicators = \<lparr>ind_ema_short = 43200, ind_ema_long = 42800, ind_rsi = 65\<rparr>\<rparr>, console = []\<rparr>"
proof -
  let ?s = "\<lparr>signal_type = Some Buy, strength = Some Weak, confidence = 55, signal_price = 43000,
       indicators = \<lparr>ind_ema_short = 43200, ind_ema_long = 42800, ind_rsi = 65\<rparr>\<rparr>"
  have a: "confidence ?s < 60" by simp
  from execute_rejected_below_60 [OF a, of "[]"] a show ?thesis by blast
qed

text \<open>
  A generated signal of confidence 65 is below the default \<open>minConfidence\<close> of 70, and the
  click still executes it.
\<close>

theorem execute_allowed_below_minConfidence:
  "confidence (SignalPanel_generateSampleSignal (fixed_draws (1 / 8))) = 65
   \<and> confidence (SignalPanel_generateSampleSignal (fixed_draws (1 / 8))) < minConfidence DEFAULT_SETTINGS
   \<and> console (click_execute \<lparr>currentSignal = Some (SignalPanel_generateSampleSignal (fixed_draws (1 / 8))),
                               console = []\<rparr>)
       = [SignalPanel_generateSampleSignal (fixed_draws (1 / 8))]"
proof -
  have c: "confidence (SignalPanel_generateSampleSignal (fixed_draws (1 / 8))) = 65"
    by (simp add: SignalPanel_generateSampleSignal_def sample_confidence_def fixed_draws_def
        Math_round_def)
  then show ?thesis
    by (simp add: click_execute_def execute_disabled_def handleExecuteTrade_def DEFAULT_SETTINGS_def)
qed

text \<open>
  C9. Every signal of either generator has a confidence between 60 and 100, so the execute
  button is never disabled for a generated signal.
\<close>

theorem generated_confidence_between_60_and_100:
  assumes "0 \<le> e 2" and "e 2 < 1"
  shows "60 \<le> confidence (SignalPanel_generateSampleSignal e)
       \<and> confidence (SignalPanel_generateSampleSignal e) \<le> 100
       \<and> 60 \<le> confidence (TradingChart_generateSampleSignal e chartData)
       \<and> confidence (TradingChart_generateSampleSignal e chartData) \<le> 100
       \<and> \<not> execute_disabled (SignalPanel_generateSampleSignal e)
       \<and> \<not> execute_disabled (TradingChart_generateSampleSignal e chartData)"
  using sample_confidence_bounds [OF assms]
  by (simp add: SignalPanel_generateSampleSignal_def TradingChart_generateSampleSignal_def
      execute_disabled_def Let_def)

theorem generated_confidence_between_60_and_100_witness:
  "0 \<le> fixed_draws 0 2 \<and> fixed_draws 0 2 < 1
   \<and> confidence (SignalPanel_generateSampleSignal (fixed_draws 0)) = 60
   \<and> confidence (TradingChart_generateSampleSignal (fixed_draws 0) []) = 60
   \<and> \<not> execute_disabled (SignalPanel_generateSampleSignal (fixed_draws 0))
   \<and> \<not> execute_disabled (TradingChart_generateSampleSignal (fixed_draws 0) [])"
proof -
  have a: "0 \<le> fixed_draws 0 2" and b: "fixed_draws 0 2 < 1"
    by (simp_all add: fixed_draws_def)
  have c: "confidence (SignalPanel_generateSampleSignal (fixed_draws 0)) = 60"
    "confidence (TradingChart_generateSampleSignal (fixed_draws 0) []) = 60"
    by (simp_all add: SignalPanel_generateSampleSignal_def TradingChart_generateSampleSignal_def
        sample_confidence_def fixed_draws_def Math_round_def Let_def)
  from generated_confidence_between_60_and_100 [of "fixed_draws 0" "[]", OF a b] a b c
  show ?thesis by blast
qed

section \<open>TradingChart: the series\<close>

text \<open>
  C4 (amended). The sample chart has 50 points and every one of them, from index 0 on, carries
  an \<open>ema_short\<close> and an \<open>ema_long\<close>: the running base price of the same bar plus noise,
  rounded. There is no period and no warm-up gap.
\<close>

theorem generateSampleData_ema_on_every_bar:
  "length (generateSampleData e) = 50
   \<and> (\<forall>i<50.
        price (generateSampleData e ! i) = real_of_int (Math_round (running_basePrice e i))
      \<and> ema_short (generateSampleData e ! i)
          = real_of_int (Math_round (running_basePrice e i + (e (5 * i + 1) - 1 / 2) * 200))
      \<and> ema_long (generateSampleData e ! i)
          = real_of_int (Math_round (running_basePrice e i + (e (5 * i + 2) - 1 / 2) * 400)))"
  by (simp add: length_generateSampleData nth_generateSampleData sample_point_def)

theorem generateSampleData_ema_on_every_bar_witness:
  "length (generateSampleData (fixed_draws (1 / 2))) = 50 \<and> (0::nat) < 50
   \<and> price (generateSampleData (fixed_draws (1 / 2)) ! 0) = 43000
   \<and> ema_short (generateSampleData (fixed_draws (1 / 2)) ! 0) = 43000
   \<and> ema_long (generateSampleData (fixed_draws (1 / 2)) ! 0) = 43000"
proof -
  have z: "(0::nat) < 50" by simp
  have r: "Math_round 43000 = 43000" by (simp add: Math_round_def)
  from generateSampleData_ema_on_every_bar [of "fixed_draws (1 / 2)"] z
  have "length (generateSampleData (fixed_draws (1 / 2))) = 50"
    and "price (generateSampleData (fixed_draws (1 / 2)) ! 0)
           = real_of_int (Math_round (running_basePrice (fixed_draws (1 / 2)) 0))"
    and "ema_short (generateSampleData (fixed_draws (1 / 2)) ! 0)
           = real_of_int (Math_round (running_basePrice (fixed_draws (1 / 2)) 0
               + (fixed_draws (1 / 2) (5 * 0 + 1) - 1 / 2) * 200))"
    and "ema_long (generateSampleData (fixed_draws (1 / 2)) ! 0)
           = real_of_int (Math_round (running_basePrice (fixed_draws (1 / 2)) 0
               + (fixed_draws (1 / 2) (5 * 0 + 2) - 1 / 2) * 400))"
    by blast+
  then show ?thesis by (simp add: fixed_draws_def r)
qed

text \<open>
  For the period 12 of the default settings the specification's count would be 39; the chart
  has 50 EMA values.
\<close>

theorem ema_count_is_not_length_minus_period_plus_1:
  "length (map ema_short (generateSampleData (fixed_draws (1 / 2))))
     \<noteq> spec_ema_count (length (generateSampleData (fixed_draws (1 / 2)))) 12"
  by (simp add: length_generateSampleData spec_ema_count_def)

text \<open>
  C5. Every RSI value of the chart lies in \<open>[0, 100]\<close>: in the sample data and in the series
  after any number of real-time updates, for all draws.
\<close>

theorem chart_rsi_in_0_100:
  assumes "realtime_updates es (generateSampleData e) = Inr d"
    and "p \<in> set (generateSampleData e) \<union> set d"
  shows "0 \<le> rsi p \<and> rsi p \<le> 100"
proof -
  have init: "\<forall>q\<in>set (generateSampleData e). 0 \<le> rsi q \<and> rsi q \<le> 100"
    using rsi_generateSampleData by blast
  with assms(1) have "\<forall>q\<in>set d. 0 \<le> rsi q \<and> rsi q \<le> 100"
    by (rule realtime_updates_rsi)
  with init assms(2) show ?thesis by blast
qed

theorem chart_rsi_in_0_100_witness:
  "realtime_updates [fixed_draws (1 / 2)] (generateSampleData (fixed_draws (1 / 2)))
     = Inr (replicate 50 flat_point)
   \<and> flat_point \<in> set (generateSampleData (fixed_draws (1 / 2))) \<union> set (replicate 50 flat_point)
   \<and> 0 \<le> rsi flat_point \<and> rsi flat_point \<le> 100"
proof -
  have a: "realtime_updates [fixed_draws (1 / 2)] (generateSampleData (fixed_draws (1 / 2)))
             = Inr (replicate 50 flat_point)"
    by (simp add: generateSampleData_flat realtime_update_flat)
  have b: "flat_point \<in> set (generateSampleData (fixed_draws (1 / 2))) \<union> set (replicate 50 flat_point)"
    by (simp add: generateSampleData_flat)
  from chart_rsi_in_0_100 [OF a b] a b show ?thesis by blast
qed

text \<open>
  C10. From a series of at most 50 points, no number of real-time updates yields a series
  longer than 50. On a non-empty series an update appends one point and keeps the last 50, so
  after \<open>n\<close> updates the length is \<open>min 50 (length + n)\<close>. (On the empty series the update
  throws, see \<open>realtime_update_Nil\<close>, and there is no new series.)
\<close>

theorem chartData_length_at_most_50:
  assumes "length d0 \<le> 50"
  shows "(\<forall>d. realtime_updates es d0 = Inr d \<longrightarrow> length d \<le> 50)
       \<and> (d0 \<noteq> [] \<longrightarrow>
            realtime_update e d0 = Inr (slice_last 50 (d0 @ [realtime_point e (last d0)]))
          \<and> (\<exists>d. realtime_updates es d0 = Inr d \<and> length d = min 50 (length d0 + length es)))"
  using assms realtime_updates_bound realtime_update_nonempty realtime_updates_total
  by blast

theorem chartData_length_at_most_50_witness:
  "length (replicate 50 flat_point) \<le> 50 \<and> replicate 50 flat_point \<noteq> []
   \<and> realtime_updates [fixed_draws (1 / 2)] (replicate 50 flat_point) = Inr (replicate 50 flat_point)
   \<and> realtime_update (fixed_draws (1 / 2)) (replicate 50 flat_point)
        = Inr (slice_last 50 (replicate 50 flat_point
                 @ [realtime_point (fixed_draws (1 / 2)) (last (replicate 50 flat_point))]))
   \<and> length (replicate 50 flat_point) \<le> 50"
proof -
  have a: "length (replicate 50 flat_point) \<le> 50" by simp
  have b: "replicate 50 flat_point \<noteq> []" by simp
  have c: "realtime_updates [fixed_draws (1 / 2)] (replicate 50 flat_point) = Inr (replicate 50 flat_point)"
    by (simp add: realtime_update_flat)
  from chartData_length_at_most_50 [OF a, of "[fixed_draws (1 / 2)]" "fixed_draws (1 / 2)"] a b c
  show ?thesis by blast
qed

section \<open>ResultsChart: summary statistics\<close>

text \<open>
  C6 (amended). \<open>maxDrawdown\<close> is the minimum over the 30 days of the drawdown against the
  initial balance of 1000: \<open>(balance - 1000) / 1000 * 100\<close> on a day whose running balance is
  below 1000, and \<open>0\<close> on any other day.
\<close>

theorem maxDrawdown_measured_against_initial_balance:
  "ResultsChart_maxDrawdown (generatePerformanceData e)
     = Some (Min ((\<lambda>i. drawdown_vs_initial (running_balance e i)) ` {0..<30}))"
  by (rule maxDrawdown_closed)

text \<open>
  A curve that climbs to 1025 and falls back to 1015 has a drawdown of \<open>-40/41\<close> percent
  against its running peak; the component reports \<open>0\<close>.
\<close>

theorem maxDrawdown_is_not_peak_relative:
  "ResultsChart_maxDrawdown (generatePerformanceData peak_then_dip) = Some 0
   \<and> spec_maxDrawdownPercent (map balance (generatePerformanceData peak_then_dip))
       = Some (- (40 / 41))"
  by (simp only: code_drawdown_peak_then_dip spec_drawdown_peak_then_dip)

text \<open>
  C7 (amended). For every non-empty ledger \<open>winRate\<close> is the share of trades with a positive
  profit times 100, a percentage.
\<close>

theorem winRate_is_a_percentage:
  assumes "ts \<noteq> []"
  shows "ResultsChart_winRate ts
           = Some (real (length (filter (\<lambda>t. profit t > 0) ts)) / real (length ts) * 100)"
  using assms by (simp add: ResultsChart_winRate_def js_div_def winningTrades_def)

theorem winRate_is_a_percentage_witness:
  "SAMPLE_TRADES \<noteq> [] \<and> ResultsChart_winRate SAMPLE_TRADES = Some (100 / 3)"
proof -
  have ne: "SAMPLE_TRADES \<noteq> []" by (simp add: SAMPLE_TRADES_def)
  from winRate_is_a_percentage [OF ne] ne show ?thesis
    by (simp add: SAMPLE_TRADES_def)
qed

text \<open>
  On the ledger of the component the value is \<open>100/3\<close>, while the plain ratio is \<open>1/3\<close>.
\<close>

theorem winRate_is_not_the_plain_ratio:
  "ResultsChart_winRate SAMPLE_TRADES = Some (100 / 3) \<and> spec_winRate SAMPLE_TRADES = 1 / 3"
  by (simp add: ResultsChart_winRate_def js_div_def winningTrades_def spec_winRate_def
      SAMPLE_TRADES_def)

end
